theory Spec2Isabelle
  imports Main "HOL-Library.Sublist"
begin

section \<open>Strings of the platform\<close>

text \<open>
  A JavaScript string is a sequence of UTF-16 code units; a code unit is modelled by its
  number. \<open>str\<close> reads an ASCII literal of the source as such a sequence.
\<close>

type_synonym js_string = "nat list"

definition str :: "string \<Rightarrow> js_string" where
  "str s = map of_char s"

text \<open>
  \<open>String.prototype.trim\<close> removes, at both ends, the code units that ECMAScript calls
  WhiteSpace or LineTerminator: TAB, LF, VT, FF, CR, SP, NBSP, U+1680, U+2000 to U+200A,
  U+2028, U+2029, U+202F, U+205F, U+3000 and U+FEFF.
\<close>

definition is_whitespace :: "nat \<Rightarrow> bool" where
  "is_whitespace c =
     (c = 0x9 \<or> c = 0xA \<or> c = 0xB \<or> c = 0xC \<or> c = 0xD \<or> c = 0x20 \<or> c = 0xA0 \<or>
      c = 0x1680 \<or> (0x2000 \<le> c \<and> c \<le> 0x200A) \<or> c = 0x2028 \<or> c = 0x2029 \<or>
      c = 0x202F \<or> c = 0x205F \<or> c = 0x3000 \<or> c = 0xFEFF)"

definition trim :: "js_string \<Rightarrow> js_string" where
  "trim s = rev (dropWhile is_whitespace (rev (dropWhile is_whitespace s)))"

text \<open>
  The two regular expressions of the source carry the flag \<open>i\<close> and no flag \<open>u\<close>: a
  pattern character matches an input code unit when both have the same image under
  Canonicalize, which upper-cases. On code units below 128 that is ASCII upper-casing;
  a code unit of 128 or more is never sent below 128, so it never matches the ASCII
  characters of these patterns, and it is left as it is here.
\<close>

definition canonicalize :: "nat \<Rightarrow> nat" where
  "canonicalize c = (if 97 \<le> c \<and> c \<le> 122 then c - 32 else c)"

text \<open>Matching a run of literal pattern characters at the head of the input; the
  result is the rest of the input.\<close>

fun match_chars :: "js_string \<Rightarrow> js_string \<Rightarrow> js_string option" where
  "match_chars [] s = Some s"
| "match_chars (p # ps) [] = None"
| "match_chars (p # ps) (c # s) =
     (if canonicalize c = canonicalize p then match_chars ps s else None)"

text \<open>\<^verbatim>\<open>/^https?:\/\//i.test(s)\<close>: the optional \<open>s\<close> is greedy, and the matcher
  backtracks to the branch without it.\<close>

definition test_http_scheme :: "js_string \<Rightarrow> bool" where
  "test_http_scheme s =
     (case match_chars (str ''http'') s of
        None \<Rightarrow> False
      | Some r \<Rightarrow>
          (case match_chars (str ''s'') r of
             Some r' \<Rightarrow>
               (case match_chars (str ''://'') r' of
                  Some _ \<Rightarrow> True
                | None \<Rightarrow> match_chars (str ''://'') r \<noteq> None)
           | None \<Rightarrow> match_chars (str ''://'') r \<noteq> None))"

text \<open>\<^verbatim>\<open>/^https:\/\//i.test(s)\<close>\<close>

definition test_https_scheme :: "js_string \<Rightarrow> bool" where
  "test_https_scheme s = (match_chars (str ''https://'') s \<noteq> None)"

text \<open>A thrown value: an instance of \<open>Error\<close> with its message, or anything else.\<close>

datatype js_exn = JsError js_string | JsThrown

section \<open>The URL normalizer\<close>

text \<open>
  \<open>new URL(url)\<close> is the platform's parser, a parameter of the model: it throws, or it
  gives a URL object, of which the source reads \<open>host\<close> only.
\<close>

type_synonym url_parser = "js_string \<Rightarrow> js_exn + js_string"

record ScanTarget =
  httpsUrl :: js_string
  httpUrl :: js_string
  host :: js_string

definition normalizeUrl :: "url_parser \<Rightarrow> js_string \<Rightarrow> js_exn + ScanTarget" where
  "normalizeUrl URL input =
     (let url = trim input;
          url = (if \<not> test_http_scheme url then str ''https://'' @ url else url)
      in case URL url of
           Inl e \<Rightarrow> Inl e
         | Inr u_host \<Rightarrow>
             Inr \<lparr>httpsUrl = str ''https://'' @ u_host @ str ''/'',
                  httpUrl = str ''http://'' @ u_host @ str ''/'',
                  host = u_host\<rparr>)"

text \<open>\<^verbatim>\<open>!!(h && h.length > 0)\<close>, with \<open>None\<close> for \<open>null\<close> and \<open>undefined\<close>; the empty
  string is falsy.\<close>

definition toBoolHeader :: "js_string option \<Rightarrow> bool" where
  "toBoolHeader h = (case h of None \<Rightarrow> False | Some s \<Rightarrow> s \<noteq> [] \<and> 0 < length s)"

section \<open>The two probes\<close>

text \<open>
  \<open>fetch\<close> is the platform's: for a URL and a redirect mode it rejects with an exception
  (DNS, TLS, connection, abort) or resolves with a response, of which the source reads
  \<open>status\<close>, \<open>ok\<close> and \<open>headers.get\<close>. A \<open>Headers\<close> object is modelled by its \<open>get\<close>,
  a lookup by lower-case name that gives \<open>None\<close> for \<open>null\<close>. The source sets no timeout of
  its own; a call that the platform abandons rejects like any other failure.
\<close>

datatype redirect = Follow | Manual

type_synonym Headers = "js_string \<Rightarrow> js_string option"

record FetchResponse =
  status :: nat
  res_headers :: Headers

type_synonym fetcher = "js_string \<Rightarrow> redirect \<Rightarrow> js_exn + FetchResponse"

text \<open>The getter \<open>ok\<close> of a response: the status is in the range 200 to 299.\<close>

definition res_ok :: "FetchResponse \<Rightarrow> bool" where
  "res_ok res = (200 \<le> status res \<and> status res \<le> 299)"

text \<open>Step 1 of \<open>POST\<close>: the pair of \<open>httpsEnabled\<close> and \<open>httpsHeaders\<close> after the
  first \<open>try\<close>.\<close>

definition probe_https :: "fetcher \<Rightarrow> js_string \<Rightarrow> bool \<times> Headers option" where
  "probe_https fetch url =
     (case fetch url Follow of
        Inr res \<Rightarrow> (res_ok res \<or> (200 \<le> status res \<and> status res < 400), Some (res_headers res))
      | Inl e \<Rightarrow> (False, None))"

text \<open>\<^verbatim>\<open>x || ""\<close> on a string or \<open>null\<close>.\<close>

definition or_empty :: "js_string option \<Rightarrow> js_string" where
  "or_empty x = (case x of None \<Rightarrow> [] | Some s \<Rightarrow> if s = [] then [] else s)"

text \<open>Step 2 of \<open>POST\<close>: \<open>httpRedirectsToHttps\<close> after the second \<open>try\<close>.\<close>

definition probe_http :: "fetcher \<Rightarrow> js_string \<Rightarrow> bool" where
  "probe_http fetch url =
     (case fetch url Manual of
        Inr res \<Rightarrow>
          (let loc = or_empty (res_headers res (str ''location''))
           in status res \<in> set [301, 302, 307, 308] \<and> test_https_scheme loc)
      | Inl e \<Rightarrow> False)"

section \<open>Findings, score and priorities\<close>

record Finding =
  key :: js_string
  ok :: bool
  message :: js_string
  advice :: "js_string option"

text \<open>Step 4 of \<open>POST\<close>: the array literal \<open>findings\<close>. The letters with an accent of
  the advice texts are given by their code units.\<close>

definition findings_of ::
  "bool \<Rightarrow> bool \<Rightarrow> js_string option \<Rightarrow> js_string option \<Rightarrow> js_string option \<Rightarrow>
   js_string option \<Rightarrow> js_string option \<Rightarrow> js_string option \<Rightarrow> Finding list" where
  "findings_of https_on redirects h_hsts h_csp h_xfo h_xcto h_refpol h_ppol =
     [\<lparr>key = str ''httpsEnabled'',
       ok = https_on,
       message = (if https_on then str ''HTTPS activo'' else str ''HTTPS no responde correctamente''),
       advice = (if https_on then None
                 else Some (str ''Instala un certificado TLS v'' @ [0xE1] @
                            str ''lido y sirve la tienda por HTTPS.''))\<rparr>,
      \<lparr>key = str ''httpRedirectsToHttps'',
       ok = redirects,
       message = (if redirects then str ''HTTP redirige a HTTPS'' else str ''HTTP no redirige a HTTPS''),
       advice = (if redirects then None
                 else Some (str ''Configura redirecci'' @ [0xF3] @
                            str ''n 301/308 de http:// a https://.''))\<rparr>,
      \<lparr>key = str ''hsts'',
       ok = toBoolHeader h_hsts,
       message = (if toBoolHeader h_hsts then str ''HSTS presente'' else str ''HSTS ausente''),
       advice = (if toBoolHeader h_hsts then None
                 else Some (str ''A'' @ [0xF1] @
                            str ''ade Strict-Transport-Security: max-age=15552000; includeSubDomains; preload.''))\<rparr>,
      \<lparr>key = str ''csp'',
       ok = toBoolHeader h_csp,
       message = (if toBoolHeader h_csp then str ''CSP presente'' else str ''CSP ausente''),
       advice = (if toBoolHeader h_csp then None
                 else Some (str ''Empieza con: Content-Security-Policy: default-src '' @ [39] @
                            str ''self'' @ [39] @ str ''; upgrade-insecure-requests;''))\<rparr>,
      \<lparr>key = str ''x-frame-options'',
       ok = toBoolHeader h_xfo,
       message = (if toBoolHeader h_xfo then str ''X-Frame-Options presente''
                  else str ''X-Frame-Options ausente''),
       advice = (if toBoolHeader h_xfo then None
                 else Some (str ''Usa X-Frame-Options: DENY (o SAMEORIGIN) para evitar clickjacking.''))\<rparr>,
      \<lparr>key = str ''x-content-type-options'',
       ok = toBoolHeader h_xcto,
       message = (if toBoolHeader h_xcto then str ''X-Content-Type-Options presente''
                  else str ''X-Content-Type-Options ausente''),
       advice = (if toBoolHeader h_xcto then None
                 else Some (str ''Usa X-Content-Type-Options: nosniff para bloquear MIME sniffing.''))\<rparr>,
      \<lparr>key = str ''referrer-policy'',
       ok = toBoolHeader h_refpol,
       message = (if toBoolHeader h_refpol then str ''Referrer-Policy presente''
                  else str ''Referrer-Policy ausente''),
       advice = (if toBoolHeader h_refpol then None
                 else Some (str ''Usa Referrer-Policy: strict-origin-when-cross-origin.''))\<rparr>,
      \<lparr>key = str ''permissions-policy'',
       ok = toBoolHeader h_ppol,
       message = (if toBoolHeader h_ppol then str ''Permissions-Policy presente''
                  else str ''Permissions-Policy ausente''),
       advice = (if toBoolHeader h_ppol then None
                 else Some (str ''A'' @ [0xF1] @
                            str ''ade Permissions-Policy para limitar APIs (e.g. camera=(), geolocation=()).''))\<rparr>]"

text \<open>Step 5 of \<open>POST\<close>: the score before the clamp, and the clamp.\<close>

definition raw_score :: "Finding list \<Rightarrow> bool \<Rightarrow> bool \<Rightarrow> int" where
  "raw_score fs https_on redirects =
     (let score = int (length (filter (\<lambda>f. ok f \<and> key f \<noteq> str ''httpsEnabled'' \<and>
                                           key f \<noteq> str ''httpRedirectsToHttps'') fs)) * 10;
          score = (if https_on then score + 10 else score);
          score = (if redirects then score + 10 else score)
      in score)"

definition score_of :: "Finding list \<Rightarrow> bool \<Rightarrow> bool \<Rightarrow> int" where
  "score_of fs https_on redirects = max 0 (min 100 (raw_score fs https_on redirects))"

text \<open>
  The priorities: \<open>filter\<close>, \<open>slice(0, 3)\<close>, \<open>map\<close>. A string is truthy when it is not
  empty. The cast \<open>as string\<close> does nothing when the code runs, so an entry carries the
  finding's \<open>advice\<close> as it is.
\<close>

definition truthy_advice :: "js_string option \<Rightarrow> bool" where
  "truthy_advice a = (case a of None \<Rightarrow> False | Some s \<Rightarrow> s \<noteq> [])"

definition priorities_of :: "Finding list \<Rightarrow> (js_string \<times> js_string option) list" where
  "priorities_of fs =
     map (\<lambda>f. (key f, advice f)) (take 3 (filter (\<lambda>f. \<not> ok f \<and> truthy_advice (advice f)) fs))"

section \<open>The request handler\<close>

record SecurityHeaders =
  hsts :: "js_string option"
  csp :: "js_string option"
  xFrameOptions :: "js_string option"
  xContentTypeOptions :: "js_string option"
  referrerPolicy :: "js_string option"
  permissionsPolicy :: "js_string option"

record ScanResponse =
  host' :: js_string
  httpsEnabled :: bool
  httpRedirectsToHttps :: bool
  headers :: SecurityHeaders
  score :: int
  findings :: "Finding list"
  priorities :: "(js_string \<times> js_string option) list"

text \<open>Steps 1 to 5 and the payload, for a target that \<open>normalizeUrl\<close> returned.\<close>

definition scan :: "fetcher \<Rightarrow> ScanTarget \<Rightarrow> ScanResponse" where
  "scan fetch t =
     (let (https_on, httpsHeaders) = probe_https fetch (httpsUrl t);
          redirects = probe_http fetch (httpUrl t);
          get = (\<lambda>name. case httpsHeaders of Some h \<Rightarrow> h name | None \<Rightarrow> None);
          h_hsts = get (str ''strict-transport-security'');
          h_csp = get (str ''content-security-policy'');
          xfo = get (str ''x-frame-options'');
          xcto = get (str ''x-content-type-options'');
          refpol = get (str ''referrer-policy'');
          ppol = get (str ''permissions-policy'');
          fs = findings_of https_on redirects h_hsts h_csp xfo xcto refpol ppol
      in \<lparr>host' = host t,
          httpsEnabled = https_on,
          httpRedirectsToHttps = redirects,
          headers = \<lparr>hsts = h_hsts, csp = h_csp, xFrameOptions = xfo,
                     xContentTypeOptions = xcto, referrerPolicy = refpol,
                     permissionsPolicy = ppol\<rparr>,
          score = score_of fs https_on redirects,
          findings = fs,
          priorities = priorities_of fs\<rparr>)"

text \<open>
  What \<open>POST\<close> reads of the request: \<open>req.json()\<close> rejects, or reading \<open>url\<close> of its
  result throws (the body \<open>null\<close>), or \<open>body.url\<close> is a value. Of a value that is not a
  string the source observes its truthiness only.
\<close>

datatype js_value = JString js_string | JOther bool

datatype request = JsonThrows js_exn | JsonBody js_value

datatype payload = ErrorJson js_string | ScanJson ScanResponse

record HttpResponse =
  resp_status :: nat
  resp_headers :: "(js_string \<times> js_string) list"
  resp_body :: payload

definition json_response :: "nat \<Rightarrow> payload \<Rightarrow> HttpResponse" where
  "json_response st p =
     \<lparr>resp_status = st,
      resp_headers = [(str ''Content-Type'', str ''application/json'')],
      resp_body = p\<rparr>"

text \<open>\<^verbatim>\<open>!url\<close> and \<^verbatim>\<open>typeof url !== "string"\<close>\<close>

fun falsy :: "js_value \<Rightarrow> bool" where
  "falsy (JString s) = (s = [])"
| "falsy (JOther b) = (\<not> b)"

fun is_string :: "js_value \<Rightarrow> bool" where
  "is_string (JString s) = True"
| "is_string (JOther b) = False"

text \<open>The text of the first error response (the apostrophes by their code unit), and
  \<^verbatim>\<open>e instanceof Error ? e.message : "Error inesperado"\<close>.\<close>

definition missing_url_message :: js_string where
  "missing_url_message = str ''Falta '' @ [39] @ str ''url'' @ [39] @ str '' en el body.''"

definition error_message :: "js_exn \<Rightarrow> js_string" where
  "error_message e = (case e of JsError m \<Rightarrow> m | JsThrown \<Rightarrow> str ''Error inesperado'')"

text \<open>
  The body of the outer \<open>try\<close>: an exception that reaches the outer \<open>catch\<close>, or the
  response returned; with it, the requests that \<open>fetch\<close> was called with, in order.
  The guard sends every value that is not a string to the first branch, so the last
  case of the inner \<open>case\<close> is never taken.
\<close>

type_synonym fetch_log = "(js_string \<times> redirect) list"

definition POST_try :: "url_parser \<Rightarrow> fetcher \<Rightarrow> request \<Rightarrow> (js_exn + HttpResponse) \<times> fetch_log" where
  "POST_try URL fetch req =
     (case req of
        JsonThrows e \<Rightarrow> (Inl e, [])
      | JsonBody url \<Rightarrow>
          if falsy url \<or> \<not> is_string url
          then (Inr (json_response 400 (ErrorJson missing_url_message)), [])
          else (case url of
                  JString u \<Rightarrow>
                    (case normalizeUrl URL u of
                       Inl e \<Rightarrow> (Inl e, [])
                     | Inr t \<Rightarrow>
                         (Inr (json_response 200 (ScanJson (scan fetch t))),
                          [(httpsUrl t, Follow), (httpUrl t, Manual)]))
                | JOther b \<Rightarrow> (Inl JsThrown, [])))"

text \<open>The outer \<open>catch\<close>.\<close>

definition POST :: "url_parser \<Rightarrow> fetcher \<Rightarrow> request \<Rightarrow> HttpResponse \<times> fetch_log" where
  "POST URL fetch req =
     (case POST_try URL fetch req of
        (Inr response, log) \<Rightarrow> (response, log)
      | (Inl e, log) \<Rightarrow>
          (let message = error_message e
           in (json_response 400 (ErrorJson message), log)))"

section \<open>The specification's vocabulary\<close>

text \<open>
  The specification speaks of a prefix "case-insensitive". These two definitions follow
  its words: the first code units of the string, with the ASCII capital letters turned
  into small ones, are the prefix. They are compared below with the matcher above.
\<close>

definition ascii_lower :: "nat \<Rightarrow> nat" where
  "ascii_lower c = (if 65 \<le> c \<and> c \<le> 90 then c + 32 else c)"

definition has_prefix_ci :: "js_string \<Rightarrow> js_string \<Rightarrow> bool" where
  "has_prefix_ci p s =
     (length p \<le> length s \<and> map ascii_lower (take (length p) s) = map ascii_lower p)"

text \<open>The normalizer's second step in the specification's words: the string, with
  \<open>https://\<close> in front of it when it has neither prefix.\<close>

definition with_scheme :: "js_string \<Rightarrow> js_string" where
  "with_scheme s =
     (if has_prefix_ci (str ''http://'') s \<or> has_prefix_ci (str ''https://'') s then s
      else str ''https://'' @ s)"

text \<open>The header extractor of the specification: the six lookups of step 3 on one
  \<open>Headers\<close> object; \<open>no_headers\<close> has no header at all.\<close>

definition lookup_six :: "Headers \<Rightarrow> SecurityHeaders" where
  "lookup_six h =
     \<lparr>hsts = h (str ''strict-transport-security''),
      csp = h (str ''content-security-policy''),
      xFrameOptions = h (str ''x-frame-options''),
      xContentTypeOptions = h (str ''x-content-type-options''),
      referrerPolicy = h (str ''referrer-policy''),
      permissionsPolicy = h (str ''permissions-policy'')\<rparr>"

definition no_headers :: Headers where
  "no_headers name = None"

section \<open>Three hosts to run the handler on\<close>

text \<open>
  A parser that knows one URL, and three networks: a host that serves HTTPS with the six
  headers and redirects HTTP to it; a host with no HTTPS and a plain page over HTTP; a
  host whose HTTPS answers 500 with one security header and whose HTTP port is closed.
\<close>

definition example_URL :: url_parser where
  "example_URL u =
     (if u = str ''https://example.com/shop?x=1'' then Inr (str ''example.com'')
      else Inl (JsError (str ''Invalid URL'')))"

definition example_target :: ScanTarget where
  "example_target =
     \<lparr>httpsUrl = str ''https://example.com/'', httpUrl = str ''http://example.com/'',
      host = str ''example.com''\<rparr>"

definition six_set :: Headers where
  "six_set name =
     (if name \<in> set [str ''strict-transport-security'', str ''content-security-policy'',
                      str ''x-frame-options'', str ''x-content-type-options'',
                      str ''referrer-policy'', str ''permissions-policy'']
      then Some (str ''on'') else None)"

definition fetch_secure :: fetcher where
  "fetch_secure url mode =
     (case mode of
        Follow \<Rightarrow> Inr \<lparr>status = 200, res_headers = six_set\<rparr>
      | Manual \<Rightarrow>
          Inr \<lparr>status = 301,
               res_headers = (\<lambda>name. if name = str ''location''
                                      then Some (str ''HTTPS://example.com/'') else None)\<rparr>)"

definition fetch_down :: fetcher where
  "fetch_down url mode =
     (case mode of
        Follow \<Rightarrow> Inl (JsError (str ''fetch failed''))
      | Manual \<Rightarrow> Inr \<lparr>status = 200, res_headers = no_headers\<rparr>)"

definition fetch_broken :: fetcher where
  "fetch_broken url mode =
     (case mode of
        Follow \<Rightarrow>
          Inr \<lparr>status = 500,
               res_headers = (\<lambda>name. if name = str ''strict-transport-security''
                                      then Some (str ''max-age=600'') else None)\<rparr>
      | Manual \<Rightarrow> Inl (JsError (str ''fetch failed'')))"

section \<open>The matcher and the specification's prefix\<close>

lemma canonicalize_eq_iff: "canonicalize c = canonicalize p \<longleftrightarrow> ascii_lower c = ascii_lower p"
  unfolding canonicalize_def ascii_lower_def by (auto split: if_splits)

lemma match_chars_prefix: "match_chars p s \<noteq> None \<longleftrightarrow> has_prefix_ci p s"
  by (induction p s rule: match_chars.induct)
     (auto simp: has_prefix_ci_def canonicalize_eq_iff)

lemma match_chars_append:
  "match_chars (p @ q) s = (case match_chars p s of None \<Rightarrow> None | Some r \<Rightarrow> match_chars q r)"
  by (induction p s rule: match_chars.induct) auto

lemma test_http_scheme_prefix:
  "test_http_scheme s \<longleftrightarrow> has_prefix_ci (str ''http://'') s \<or> has_prefix_ci (str ''https://'') s"
proof -
  have a: "str ''https://'' = str ''http'' @ str ''s'' @ str ''://''"
    and b: "str ''http://'' = str ''http'' @ str ''://''"
    by (simp_all add: str_def)
  show ?thesis
    unfolding match_chars_prefix [symmetric] a b match_chars_append test_http_scheme_def
    by (auto split: option.splits)
qed

lemma test_https_scheme_prefix: "test_https_scheme s \<longleftrightarrow> has_prefix_ci (str ''https://'') s"
  unfolding test_https_scheme_def by (rule match_chars_prefix)

lemma trim_decomposition:
  "\<exists>pre suf. s = pre @ trim s @ suf \<and> list_all is_whitespace pre \<and> list_all is_whitespace suf"
proof -
  define d where "d = dropWhile is_whitespace s"
  define e where "e = rev d"
  have "e = takeWhile is_whitespace e @ dropWhile is_whitespace e" by simp
  then have "rev e = rev (dropWhile is_whitespace e) @ rev (takeWhile is_whitespace e)"
    by (metis rev_append)
  then have d: "d = trim s @ rev (takeWhile is_whitespace e)"
    by (simp add: trim_def e_def d_def)
  have "s = takeWhile is_whitespace s @ d" by (simp add: d_def)
  with d have "s = takeWhile is_whitespace s @ trim s @ rev (takeWhile is_whitespace e)"
    by simp
  moreover have "list_all is_whitespace (takeWhile is_whitespace s)"
    unfolding list_all_iff by (meson set_takeWhileD)
  moreover have "list_all is_whitespace (rev (takeWhile is_whitespace e))"
    unfolding list_all_iff set_rev by (meson set_takeWhileD)
  ultimately show ?thesis by blast
qed

lemma trim_ends:
  assumes "trim s \<noteq> []"
  shows "\<not> is_whitespace (hd (trim s)) \<and> \<not> is_whitespace (last (trim s))"
proof -
  define d where "d = dropWhile is_whitespace s"
  define e where "e = dropWhile is_whitespace (rev d)"
  have t: "trim s = rev e" by (simp add: trim_def e_def d_def)
  with assms have e: "e \<noteq> []" by simp
  then have "\<not> is_whitespace (hd e)" unfolding e_def by (rule hd_dropWhile)
  then have l: "\<not> is_whitespace (last (trim s))" using e by (simp add: t last_rev)
  have d: "d \<noteq> []"
  proof
    assume "d = []"
    then have "e = []" by (simp add: e_def)
    with e show False by simp
  qed
  then have nd: "\<not> is_whitespace (hd d)" unfolding d_def by (rule hd_dropWhile)
  have "rev d = takeWhile is_whitespace (rev d) @ e" by (simp add: e_def)
  then have "last (rev d) = last e" using e by (metis last_appendR)
  then have "hd (trim s) = hd d" using e d by (simp add: t hd_rev last_rev)
  with nd l show ?thesis by simp
qed

section \<open>The eight findings\<close>

lemma length_filter_Cons: "length (filter P (x # xs)) = of_bool (P x) + length (filter P xs)"
  by simp

lemma length_findings_of: "length (findings_of a b h1 h2 h3 h4 h5 h6) = 8"
  by (simp add: findings_of_def)

lemma keys_findings_of:
  "map key (findings_of a b h1 h2 h3 h4 h5 h6) =
     [str ''httpsEnabled'', str ''httpRedirectsToHttps'', str ''hsts'', str ''csp'',
      str ''x-frame-options'', str ''x-content-type-options'', str ''referrer-policy'',
      str ''permissions-policy'']"
  by (simp add: findings_of_def)

lemma oks_findings_of:
  "map ok (findings_of a b h1 h2 h3 h4 h5 h6) =
     [a, b, toBoolHeader h1, toBoolHeader h2, toBoolHeader h3, toBoolHeader h4,
      toBoolHeader h5, toBoolHeader h6]"
  by (simp add: findings_of_def)

lemma advice_findings_of:
  "f \<in> set (findings_of a b h1 h2 h3 h4 h5 h6) \<Longrightarrow> (advice f \<noteq> None) = (\<not> ok f)"
  by (auto simp: findings_of_def)

lemma truthy_findings_of:
  "f \<in> set (findings_of a b h1 h2 h3 h4 h5 h6) \<Longrightarrow> truthy_advice (advice f) = (\<not> ok f)"
  by (auto simp: findings_of_def truthy_advice_def str_def)

lemma count_ok_findings_of:
  "length (filter ok (findings_of a b h1 h2 h3 h4 h5 h6)) =
     of_bool a + of_bool b + of_bool (toBoolHeader h1) + of_bool (toBoolHeader h2) +
     of_bool (toBoolHeader h3) + of_bool (toBoolHeader h4) + of_bool (toBoolHeader h5) +
     of_bool (toBoolHeader h6)"
  unfolding findings_of_def length_filter_Cons by simp

lemma count_header_findings_of:
  "length (filter (\<lambda>f. ok f \<and> key f \<noteq> str ''httpsEnabled'' \<and> key f \<noteq> str ''httpRedirectsToHttps'')
             (findings_of a b h1 h2 h3 h4 h5 h6)) =
     of_bool (toBoolHeader h1) + of_bool (toBoolHeader h2) +
     of_bool (toBoolHeader h3) + of_bool (toBoolHeader h4) + of_bool (toBoolHeader h5) +
     of_bool (toBoolHeader h6)"
  unfolding findings_of_def length_filter_Cons by (simp add: str_def)

lemma count_drop2_findings_of:
  "length (filter ok (drop 2 (findings_of a b h1 h2 h3 h4 h5 h6))) =
     of_bool (toBoolHeader h1) + of_bool (toBoolHeader h2) +
     of_bool (toBoolHeader h3) + of_bool (toBoolHeader h4) + of_bool (toBoolHeader h5) +
     of_bool (toBoolHeader h6)"
  unfolding findings_of_def by (simp add: length_filter_Cons del: filter.simps)

lemma raw_score_findings_of:
  "raw_score (findings_of a b h1 h2 h3 h4 h5 h6) a b =
     10 * int (length (filter ok (findings_of a b h1 h2 h3 h4 h5 h6)))"
  unfolding raw_score_def count_header_findings_of count_ok_findings_of
  by (simp add: Let_def)

section \<open>The handler, case by case\<close>

lemma normalizeUrl_eq:
  "normalizeUrl URL input =
     (case URL (with_scheme (trim input)) of
        Inl e \<Rightarrow> Inl e
      | Inr h \<Rightarrow> Inr \<lparr>httpsUrl = str ''https://'' @ h @ str ''/'',
                      httpUrl = str ''http://'' @ h @ str ''/'', host = h\<rparr>)"
  by (simp add: normalizeUrl_def with_scheme_def test_http_scheme_prefix Let_def)

lemma scan_httpsEnabled:
  "httpsEnabled (scan fetch t) =
     (case fetch (httpsUrl t) Follow of Inl e \<Rightarrow> False
      | Inr res \<Rightarrow> 200 \<le> status res \<and> status res < 400)"
  by (auto simp: scan_def probe_https_def res_ok_def Let_def split: sum.splits)

lemma scan_headers:
  "headers (scan fetch t) =
     (case fetch (httpsUrl t) Follow of Inl e \<Rightarrow> lookup_six no_headers
      | Inr res \<Rightarrow> lookup_six (res_headers res))"
  by (simp add: scan_def probe_https_def lookup_six_def no_headers_def Let_def split: sum.splits)

lemma or_empty_scheme:
  "test_https_scheme (or_empty x) \<longleftrightarrow> (\<exists>loc. x = Some loc \<and> test_https_scheme loc)"
  by (cases x) (auto simp: or_empty_def test_https_scheme_def str_def)

lemma scan_redirects:
  "httpRedirectsToHttps (scan fetch t) =
     (case fetch (httpUrl t) Manual of Inl e \<Rightarrow> False
      | Inr res \<Rightarrow> status res \<in> {301, 302, 307, 308} \<and>
          (\<exists>loc. res_headers res (str ''location'') = Some loc \<and> test_https_scheme loc))"
  by (simp add: scan_def probe_http_def or_empty_scheme Let_def split: sum.splits prod.splits)

lemma scan_findings:
  "findings (scan fetch t) =
     findings_of (httpsEnabled (scan fetch t)) (httpRedirectsToHttps (scan fetch t))
       (hsts (headers (scan fetch t))) (csp (headers (scan fetch t)))
       (xFrameOptions (headers (scan fetch t))) (xContentTypeOptions (headers (scan fetch t)))
       (referrerPolicy (headers (scan fetch t))) (permissionsPolicy (headers (scan fetch t)))"
  by (simp add: scan_def Let_def split: prod.splits)

lemma scan_score:
  "score (scan fetch t) =
     score_of (findings (scan fetch t)) (httpsEnabled (scan fetch t))
       (httpRedirectsToHttps (scan fetch t))"
  by (simp add: scan_def Let_def split: prod.splits)

lemma scan_priorities: "priorities (scan fetch t) = priorities_of (findings (scan fetch t))"
  by (simp add: scan_def Let_def split: prod.splits)

lemma POST_scannable:
  assumes "u \<noteq> []" and "normalizeUrl URL u = Inr t"
  shows "POST URL fetch (JsonBody (JString u)) =
           (json_response 200 (ScanJson (scan fetch t)), [(httpsUrl t, Follow), (httpUrl t, Manual)])"
  using assms by (simp add: POST_def POST_try_def)

lemma POST_json_throws:
  "POST URL fetch (JsonThrows e) = (json_response 400 (ErrorJson (error_message e)), [])"
  by (simp add: POST_def POST_try_def error_message_def)

lemma POST_not_string:
  "POST URL fetch (JsonBody (JOther b)) = (json_response 400 (ErrorJson missing_url_message), [])"
  by (simp add: POST_def POST_try_def missing_url_message_def)

lemma POST_empty:
  "POST URL fetch (JsonBody (JString [])) = (json_response 400 (ErrorJson missing_url_message), [])"
  by (simp add: POST_def POST_try_def missing_url_message_def)

lemma POST_invalid:
  assumes "u \<noteq> []" and "normalizeUrl URL u = Inl e"
  shows "POST URL fetch (JsonBody (JString u)) = (json_response 400 (ErrorJson (error_message e)), [])"
  using assms by (simp add: POST_def POST_try_def error_message_def)

lemma POST_cases:
  "(\<exists>m. POST URL fetch req = (json_response 400 (ErrorJson m), [])) \<or>
   (\<exists>u t. req = JsonBody (JString u) \<and> u \<noteq> [] \<and> normalizeUrl URL u = Inr t \<and>
      POST URL fetch req =
        (json_response 200 (ScanJson (scan fetch t)), [(httpsUrl t, Follow), (httpUrl t, Manual)]))"
proof (cases req)
  case (JsonThrows e)
  then show ?thesis using POST_json_throws by blast
next
  case (JsonBody v)
  show ?thesis
  proof (cases v)
    case (JOther b)
    with JsonBody show ?thesis using POST_not_string by blast
  next
    case (JString u)
    show ?thesis
    proof (cases "u = []")
      case True
      with JsonBody JString show ?thesis using POST_empty by blast
    next
      case False
      show ?thesis
      proof (cases "normalizeUrl URL u")
        case (Inl e)
        with JsonBody JString False show ?thesis using POST_invalid by blast
      next
        case (Inr t)
        with JsonBody JString False show ?thesis using POST_scannable by blast
      qed
    qed
  qed
qed

lemma POST_ScanJson:
  assumes "POST URL fetch req = (response, log)" and "resp_body response = ScanJson r"
  shows "\<exists>u t. req = JsonBody (JString u) \<and> u \<noteq> [] \<and> normalizeUrl URL u = Inr t \<and>
           r = scan fetch t \<and> response = json_response 200 (ScanJson r) \<and>
           log = [(httpsUrl t, Follow), (httpUrl t, Manual)]"
  using POST_cases [of URL fetch req] assms by (auto simp: json_response_def)

lemma example_trim: "trim (str ''  example.com/shop?x=1 '') = str ''example.com/shop?x=1''"
  by (simp add: trim_def str_def is_whitespace_def)

lemma example_with_scheme:
  "with_scheme (str ''example.com/shop?x=1'') = str ''https://example.com/shop?x=1''"
  by (simp add: with_scheme_def has_prefix_ci_def str_def ascii_lower_def)

lemma example_normalizes:
  "normalizeUrl example_URL (str ''  example.com/shop?x=1 '') = Inr example_target"
  unfolding normalizeUrl_eq example_trim example_with_scheme
  by (simp add: example_URL_def example_target_def str_def)

lemma example_input_not_empty: "str ''  example.com/shop?x=1 '' \<noteq> []"
  by (simp add: str_def)

section \<open>The score of the eight findings, and the first host\<close>

lemma score_of_findings_of:
  "score_of (findings_of a b h1 h2 h3 h4 h5 h6) a b =
     raw_score (findings_of a b h1 h2 h3 h4 h5 h6) a b"
proof -
  have "length (filter ok (findings_of a b h1 h2 h3 h4 h5 h6)) \<le> 8"
    using length_filter_le [of ok "findings_of a b h1 h2 h3 h4 h5 h6"]
    by (simp add: length_findings_of)
  then show ?thesis
    unfolding score_of_def raw_score_findings_of by simp
qed

lemma header_part_findings_of:
  "10 * int (length (filter ok (findings_of a b h1 h2 h3 h4 h5 h6))) =
     10 * int (length (filter ok (drop 2 (findings_of a b h1 h2 h3 h4 h5 h6)))) +
     (if a then 10 else 0) + (if b then 10 else 0)"
  unfolding count_ok_findings_of count_drop2_findings_of by simp

lemma example_scan_response:
  "POST example_URL fetch (JsonBody (JString (str ''  example.com/shop?x=1 ''))) =
     (json_response 200 (ScanJson (scan fetch example_target)),
      [(httpsUrl example_target, Follow), (httpUrl example_target, Manual)])"
  using example_input_not_empty example_normalizes by (rule POST_scannable)

lemma resp_body_json_response: "resp_body (json_response st p) = p"
  by (simp add: json_response_def)

lemma count_ok_by_map: "length (filter ok fs) = length (filter (\<lambda>x. x) (map ok fs))"
  by (simp add: filter_map comp_def)

lemma secure_httpsEnabled: "httpsEnabled (scan fetch_secure example_target) = True"
  by (simp add: scan_httpsEnabled fetch_secure_def)

lemma secure_redirects: "httpRedirectsToHttps (scan fetch_secure example_target) = True"
  by (simp add: scan_redirects fetch_secure_def test_https_scheme_prefix has_prefix_ci_def
      str_def ascii_lower_def)

lemma secure_headers: "headers (scan fetch_secure example_target) = lookup_six six_set"
  by (simp add: scan_headers fetch_secure_def)

lemma secure_oks:
  "map ok (findings (scan fetch_secure example_target)) =
     [True, True, True, True, True, True, True, True]"
  unfolding scan_findings oks_findings_of secure_httpsEnabled secure_redirects secure_headers
  by (simp add: lookup_six_def six_set_def toBoolHeader_def str_def)

section \<open>The other two hosts\<close>

lemma toBoolHeader_iff: "toBoolHeader h \<longleftrightarrow> h \<noteq> None \<and> h \<noteq> Some []"
  by (cases h) (auto simp: toBoolHeader_def)

lemma down_httpsEnabled: "httpsEnabled (scan fetch_down example_target) = False"
  by (simp add: scan_httpsEnabled fetch_down_def)

lemma down_redirects: "httpRedirectsToHttps (scan fetch_down example_target) = False"
  by (simp add: scan_redirects fetch_down_def no_headers_def)

lemma down_headers: "headers (scan fetch_down example_target) = lookup_six no_headers"
  by (simp add: scan_headers fetch_down_def)

lemma down_oks:
  "map ok (findings (scan fetch_down example_target)) =
     [False, False, False, False, False, False, False, False]"
  unfolding scan_findings oks_findings_of down_httpsEnabled down_redirects down_headers
  by (simp add: lookup_six_def no_headers_def toBoolHeader_def)

lemma broken_httpsEnabled: "httpsEnabled (scan fetch_broken example_target) = False"
  by (simp add: scan_httpsEnabled fetch_broken_def)

lemma broken_redirects: "httpRedirectsToHttps (scan fetch_broken example_target) = False"
  by (simp add: scan_redirects fetch_broken_def)

lemma broken_oks:
  "map ok (findings (scan fetch_broken example_target)) =
     [False, False, True, False, False, False, False, False]"
  unfolding scan_findings oks_findings_of broken_httpsEnabled broken_redirects
  by (simp add: scan_headers fetch_broken_def lookup_six_def toBoolHeader_def str_def)

lemma nth_ok: "i < length fs \<Longrightarrow> ok (fs ! i) = map ok fs ! i"
  by simp

section \<open>Filtering the eight findings\<close>

lemma priorities_of_findings_of:
  "priorities_of (findings_of a b h1 h2 h3 h4 h5 h6) =
     take 3 (map (\<lambda>f. (key f, advice f))
       (filter (\<lambda>f. \<not> ok f \<and> advice f \<noteq> None) (findings_of a b h1 h2 h3 h4 h5 h6)))"
proof -
  have "filter (\<lambda>f. \<not> ok f \<and> truthy_advice (advice f)) (findings_of a b h1 h2 h3 h4 h5 h6) =
        filter (\<lambda>f. \<not> ok f \<and> advice f \<noteq> None) (findings_of a b h1 h2 h3 h4 h5 h6)"
    by (rule filter_cong, rule refl, use truthy_findings_of advice_findings_of in blast)
  then show ?thesis by (simp add: priorities_of_def take_map)
qed

lemma failing_findings_of:
  "filter (\<lambda>f. \<not> ok f \<and> advice f \<noteq> None) (findings_of a b h1 h2 h3 h4 h5 h6) =
   filter (\<lambda>f. \<not> ok f) (findings_of a b h1 h2 h3 h4 h5 h6)"
  by (rule filter_cong, rule refl, use advice_findings_of in blast)

lemma advice_not_empty_findings_of:
  assumes "f \<in> set (findings_of a b h1 h2 h3 h4 h5 h6)" and "\<not> ok f"
  shows "advice f \<noteq> None \<and> advice f \<noteq> Some []"
proof -
  from assms have "truthy_advice (advice f)" by (simp add: truthy_findings_of)
  then show ?thesis by (cases "advice f") (simp_all add: truthy_advice_def)
qed

lemma subseq_take_map_filter:
  "subseq (take n (map g (filter Q xs))) (map g xs)"
proof -
  have "subseq (take n (map g (filter Q xs))) (map g (filter Q xs))"
    by (rule prefix_imp_subseq) (rule take_is_prefix)
  moreover have "subseq (map g (filter Q xs)) (map g xs)"
    by (rule subseq_map) (rule subseq_filter_left)
  ultimately show ?thesis by (rule subseq_order.trans)
qed

lemma all_failing_by_map:
  assumes "map ok fs = replicate (length fs) False"
  shows "\<forall>f \<in> set fs. \<not> ok f"
proof
  fix f assume "f \<in> set fs"
  then have "ok f \<in> set (map ok fs)" by simp
  then show "\<not> ok f" unfolding assms by simp
qed

section \<open>The header findings of a scan\<close>

lemma lookup_six_oks:
  "map toBoolHeader
     [hsts (lookup_six h), csp (lookup_six h), xFrameOptions (lookup_six h),
      xContentTypeOptions (lookup_six h), referrerPolicy (lookup_six h),
      permissionsPolicy (lookup_six h)] =
   map (\<lambda>name. toBoolHeader (h name))
     [str ''strict-transport-security'', str ''content-security-policy'',
      str ''x-frame-options'', str ''x-content-type-options'', str ''referrer-policy'',
      str ''permissions-policy'']"
  by (simp add: lookup_six_def)

lemma scan_header_oks:
  "map ok (drop 2 (findings (scan fetch t))) =
     map toBoolHeader
       [hsts (headers (scan fetch t)), csp (headers (scan fetch t)),
        xFrameOptions (headers (scan fetch t)), xContentTypeOptions (headers (scan fetch t)),
        referrerPolicy (headers (scan fetch t)), permissionsPolicy (headers (scan fetch t))]"
proof -
  have "map ok (drop 2 (findings (scan fetch t))) = drop 2 (map ok (findings (scan fetch t)))"
    by (simp add: drop_map)
  then show ?thesis
    by (subst (asm) (2) scan_findings) (simp add: oks_findings_of)
qed

lemma scan_first_ok: "ok (findings (scan fetch t) ! 0) = httpsEnabled (scan fetch t)"
proof -
  have "length (findings (scan fetch t)) = 8"
    by (subst scan_findings) (rule length_findings_of)
  then have "ok (findings (scan fetch t) ! 0) = map ok (findings (scan fetch t)) ! 0"
    by simp
  then show ?thesis
    by (subst (asm) (2) scan_findings) (simp add: oks_findings_of)
qed

lemma no_headers_oks:
  "map (\<lambda>name. toBoolHeader (no_headers name)) names = replicate (length names) False"
  by (induction names) (simp_all add: no_headers_def toBoolHeader_def)

lemma https_scheme_first_eight:
  "test_https_scheme loc \<longleftrightarrow> map ascii_lower (take 8 loc) = str ''https://''"
proof -
  have l: "map ascii_lower (str ''https://'') = str ''https://''" and n: "length (str ''https://'') = 8"
    by (simp_all add: str_def ascii_lower_def)
  have "8 \<le> length loc" if "map ascii_lower (take 8 loc) = str ''https://''"
  proof -
    from that have "length (map ascii_lower (take 8 loc)) = length (str ''https://'')" by simp
    then show ?thesis by (simp add: n)
  qed
  then show ?thesis
    unfolding test_https_scheme_prefix has_prefix_ci_def l n by blast
qed

section \<open>The claims\<close>

subsection \<open>C1: the score\<close>

text \<open>
  C1. Whenever \<open>POST\<close> answers with a scan result, the result has eight findings and its
  score is ten times the number of findings that are \<open>ok\<close>: ten for each of the six
  header findings that is \<open>ok\<close>, ten for \<open>httpsEnabled\<close> and ten for
  \<open>httpRedirectsToHttps\<close>. The score is a multiple of ten between 0 and 80, hence
  between 0 and 100, and the clamp to that range returns the sum it is given.
\<close>

theorem score_is_ten_per_ok_finding:
  assumes "POST URL fetch req = (response, log)" and "resp_body response = ScanJson r"
  shows "length (findings r) = 8 \<and>
         score r = 10 * int (length (filter ok (findings r))) \<and>
         score r = 10 * int (length (filter ok (drop 2 (findings r)))) +
                   (if httpsEnabled r then 10 else 0) +
                   (if httpRedirectsToHttps r then 10 else 0) \<and>
         10 dvd score r \<and> 0 \<le> score r \<and> score r \<le> 80 \<and> score r \<le> 100 \<and>
         score r = max 0 (min 100 (raw_score (findings r) (httpsEnabled r) (httpRedirectsToHttps r))) \<and>
         max 0 (min 100 (raw_score (findings r) (httpsEnabled r) (httpRedirectsToHttps r))) =
           raw_score (findings r) (httpsEnabled r) (httpRedirectsToHttps r)"
proof -
  from POST_ScanJson [OF assms] obtain t where r: "r = scan fetch t" by blast
  define a where "a = httpsEnabled r"
  define b where "b = httpRedirectsToHttps r"
  obtain h1 h2 h3 h4 h5 h6 where fs: "findings r = findings_of a b h1 h2 h3 h4 h5 h6"
    unfolding r a_def b_def using scan_findings by blast
  have sc: "score r = score_of (findings r) a b"
    unfolding r a_def b_def by (rule scan_score)
  have len: "length (findings r) = 8"
    unfolding fs by (rule length_findings_of)
  have raw: "raw_score (findings r) a b = 10 * int (length (filter ok (findings r)))"
    unfolding fs by (rule raw_score_findings_of)
  have clamp: "score_of (findings r) a b = raw_score (findings r) a b"
    unfolding fs by (rule score_of_findings_of)
  have parts: "10 * int (length (filter ok (findings r))) =
     10 * int (length (filter ok (drop 2 (findings r)))) +
     (if a then 10 else 0) + (if b then 10 else 0)"
    unfolding fs by (rule header_part_findings_of)
  have le: "length (filter ok (findings r)) \<le> 8"
    using length_filter_le [of ok "findings r"] len by simp
  have s: "score r = 10 * int (length (filter ok (findings r)))"
    using sc clamp raw by simp
  have "10 dvd score r" unfolding s by simp
  moreover have "0 \<le> score r" unfolding s by simp
  moreover have "score r \<le> 80" unfolding s using le by simp
  moreover have "score r = max 0 (min 100 (raw_score (findings r) a b))"
    using sc by (simp add: score_of_def)
  moreover have "max 0 (min 100 (raw_score (findings r) a b)) = raw_score (findings r) a b"
    using clamp by (simp add: score_of_def)
  ultimately show ?thesis
    using len s parts unfolding a_def b_def by simp
qed

text \<open>On the host with HTTPS, the redirect and the six headers, all eight findings are
  \<open>ok\<close> and the score is 80.\<close>

theorem score_is_ten_per_ok_finding_witness:
  "POST example_URL fetch_secure (JsonBody (JString (str ''  example.com/shop?x=1 ''))) =
     (json_response 200 (ScanJson (scan fetch_secure example_target)),
      [(httpsUrl example_target, Follow), (httpUrl example_target, Manual)]) \<and>
   resp_body (json_response 200 (ScanJson (scan fetch_secure example_target))) =
     ScanJson (scan fetch_secure example_target) \<and>
   length (filter ok (findings (scan fetch_secure example_target))) = 8 \<and>
   score (scan fetch_secure example_target) = 80"
proof -
  have p: "POST example_URL fetch_secure (JsonBody (JString (str ''  example.com/shop?x=1 ''))) =
     (json_response 200 (ScanJson (scan fetch_secure example_target)),
      [(httpsUrl example_target, Follow), (httpUrl example_target, Manual)])"
    by (rule example_scan_response)
  have b: "resp_body (json_response 200 (ScanJson (scan fetch_secure example_target))) =
     ScanJson (scan fetch_secure example_target)"
    by (rule resp_body_json_response)
  have n: "length (filter ok (findings (scan fetch_secure example_target))) = 8"
    unfolding count_ok_by_map secure_oks by simp
  from score_is_ten_per_ok_finding [OF p b] n
  have "score (scan fetch_secure example_target) = 80" by simp
  with p b n show ?thesis by blast
qed

subsection \<open>C2: a failed HTTPS probe\<close>

text \<open>
  C2. For a request whose URL normalizes to a target, \<open>POST\<close> answers 200 with the scan
  result, whatever \<open>fetch\<close> does: the status of the answer is 200, its body is the scan
  result with its eight findings, and it is not an error message. When the HTTPS
  \<open>fetch\<close> throws, the result has \<open>httpsEnabled\<close> false, its six header values are
  \<open>null\<close>, and none of the six header findings is \<open>ok\<close>. When it gives a response, the
  six header values are the lookups in that response's headers; so a header value that
  is not \<open>null\<close> comes from a response.
\<close>

theorem https_failure_degrades:
  assumes "u \<noteq> []" and "normalizeUrl URL u = Inr t"
  shows "POST URL fetch (JsonBody (JString u)) =
           (json_response 200 (ScanJson (scan fetch t)),
            [(httpsUrl t, Follow), (httpUrl t, Manual)]) \<and>
         resp_status (fst (POST URL fetch (JsonBody (JString u)))) = 200 \<and>
         resp_body (fst (POST URL fetch (JsonBody (JString u)))) = ScanJson (scan fetch t) \<and>
         (\<forall>m. resp_body (fst (POST URL fetch (JsonBody (JString u)))) \<noteq> ErrorJson m) \<and>
         length (findings (scan fetch t)) = 8 \<and>
         (\<forall>e. fetch (httpsUrl t) Follow = Inl e \<longrightarrow>
            \<not> httpsEnabled (scan fetch t) \<and>
            headers (scan fetch t) = lookup_six no_headers \<and>
            map ok (drop 2 (findings (scan fetch t))) =
              [False, False, False, False, False, False]) \<and>
         (\<forall>res. fetch (httpsUrl t) Follow = Inr res \<longrightarrow>
            headers (scan fetch t) = lookup_six (res_headers res)) \<and>
         (headers (scan fetch t) \<noteq> lookup_six no_headers \<longrightarrow>
            (\<exists>res. fetch (httpsUrl t) Follow = Inr res))"
proof -
  have thrown: "\<not> httpsEnabled (scan fetch t) \<and>
            headers (scan fetch t) = lookup_six no_headers \<and>
            map ok (drop 2 (findings (scan fetch t))) =
              [False, False, False, False, False, False]"
    if "fetch (httpsUrl t) Follow = Inl e" for e
  proof -
    from that have h: "headers (scan fetch t) = lookup_six no_headers"
      by (simp add: scan_headers)
    from that have "\<not> httpsEnabled (scan fetch t)"
      by (simp add: scan_httpsEnabled)
    moreover have "map ok (drop 2 (findings (scan fetch t))) =
              [False, False, False, False, False, False]"
      unfolding scan_header_oks h lookup_six_oks no_headers_oks by (simp add: numeral_eq_Suc)
    ultimately show ?thesis using h by simp
  qed
  have kept: "headers (scan fetch t) = lookup_six (res_headers res)"
    if "fetch (httpsUrl t) Follow = Inr res" for res
    using that by (simp add: scan_headers)
  have only: "\<exists>res. fetch (httpsUrl t) Follow = Inr res"
    if "headers (scan fetch t) \<noteq> lookup_six no_headers"
    using that thrown by (cases "fetch (httpsUrl t) Follow") auto
  have answer: "POST URL fetch (JsonBody (JString u)) =
           (json_response 200 (ScanJson (scan fetch t)),
            [(httpsUrl t, Follow), (httpUrl t, Manual)])"
    using assms by (rule POST_scannable)
  have st: "resp_status (fst (POST URL fetch (JsonBody (JString u)))) = 200"
    unfolding answer by (simp add: json_response_def)
  have body: "resp_body (fst (POST URL fetch (JsonBody (JString u)))) = ScanJson (scan fetch t)"
    unfolding answer by (simp add: json_response_def)
  have no_error: "resp_body (fst (POST URL fetch (JsonBody (JString u)))) \<noteq> ErrorJson m" for m
    unfolding body by simp
  have eight: "length (findings (scan fetch t)) = 8"
    by (subst scan_findings) (rule length_findings_of)
  from answer st body no_error eight thrown kept only show ?thesis by blast
qed

text \<open>On the host with no HTTPS.\<close>

theorem https_failure_degrades_witness:
  "str ''  example.com/shop?x=1 '' \<noteq> [] \<and>
   normalizeUrl example_URL (str ''  example.com/shop?x=1 '') = Inr example_target \<and>
   fetch_down (httpsUrl example_target) Follow = Inl (JsError (str ''fetch failed'')) \<and>
   POST example_URL fetch_down (JsonBody (JString (str ''  example.com/shop?x=1 ''))) =
     (json_response 200 (ScanJson (scan fetch_down example_target)),
      [(httpsUrl example_target, Follow), (httpUrl example_target, Manual)]) \<and>
   resp_status (fst (POST example_URL fetch_down
     (JsonBody (JString (str ''  example.com/shop?x=1 ''))))) = 200 \<and>
   resp_body (fst (POST example_URL fetch_down
     (JsonBody (JString (str ''  example.com/shop?x=1 ''))))) =
     ScanJson (scan fetch_down example_target) \<and>
   resp_body (fst (POST example_URL fetch_down
     (JsonBody (JString (str ''  example.com/shop?x=1 ''))))) \<noteq> ErrorJson (str ''fetch failed'') \<and>
   length (findings (scan fetch_down example_target)) = 8 \<and>
   \<not> httpsEnabled (scan fetch_down example_target) \<and>
   headers (scan fetch_down example_target) = lookup_six no_headers \<and>
   map ok (drop 2 (findings (scan fetch_down example_target))) =
     [False, False, False, False, False, False]"
proof -
  have f: "fetch_down (httpsUrl example_target) Follow = Inl (JsError (str ''fetch failed''))"
    by (simp add: fetch_down_def)
  from https_failure_degrades [OF example_input_not_empty example_normalizes, of fetch_down] f
    example_input_not_empty example_normalizes
  show ?thesis by blast
qed

subsection \<open>C3: the eight findings\<close>

text \<open>
  C3. Whenever \<open>POST\<close> answers with a scan result, its findings are eight, with the keys
  \<open>httpsEnabled\<close>, \<open>httpRedirectsToHttps\<close>, \<open>hsts\<close>, \<open>csp\<close>, \<open>x-frame-options\<close>,
  \<open>x-content-type-options\<close>, \<open>referrer-policy\<close>, \<open>permissions-policy\<close> in this order.
  The first two are \<open>ok\<close> exactly when the result's \<open>httpsEnabled\<close> and
  \<open>httpRedirectsToHttps\<close> are true, and each of the other six is \<open>ok\<close> exactly when
  the header value of the result is neither \<open>null\<close> nor the empty string.
\<close>

theorem findings_fixed_keys_and_ok:
  assumes "POST URL fetch req = (response, log)" and "resp_body response = ScanJson r"
  shows "length (findings r) = 8 \<and>
         map key (findings r) =
           [str ''httpsEnabled'', str ''httpRedirectsToHttps'', str ''hsts'', str ''csp'',
            str ''x-frame-options'', str ''x-content-type-options'', str ''referrer-policy'',
            str ''permissions-policy''] \<and>
         ok (findings r ! 0) = httpsEnabled r \<and>
         ok (findings r ! 1) = httpRedirectsToHttps r \<and>
         map ok (drop 2 (findings r)) =
           map (\<lambda>h. h \<noteq> None \<and> h \<noteq> Some [])
             [hsts (headers r), csp (headers r), xFrameOptions (headers r),
              xContentTypeOptions (headers r), referrerPolicy (headers r),
              permissionsPolicy (headers r)]"
proof -
  from POST_ScanJson [OF assms] obtain t where r: "r = scan fetch t" by blast
  have fs: "findings r =
     findings_of (httpsEnabled r) (httpRedirectsToHttps r) (hsts (headers r)) (csp (headers r))
       (xFrameOptions (headers r)) (xContentTypeOptions (headers r))
       (referrerPolicy (headers r)) (permissionsPolicy (headers r))"
    unfolding r by (rule scan_findings)
  have len: "length (findings r) = 8"
    by (subst fs) (rule length_findings_of)
  have keys: "map key (findings r) =
           [str ''httpsEnabled'', str ''httpRedirectsToHttps'', str ''hsts'', str ''csp'',
            str ''x-frame-options'', str ''x-content-type-options'', str ''referrer-policy'',
            str ''permissions-policy'']"
    by (subst fs) (rule keys_findings_of)
  have oks: "map ok (findings r) =
     [httpsEnabled r, httpRedirectsToHttps r, toBoolHeader (hsts (headers r)),
      toBoolHeader (csp (headers r)), toBoolHeader (xFrameOptions (headers r)),
      toBoolHeader (xContentTypeOptions (headers r)), toBoolHeader (referrerPolicy (headers r)),
      toBoolHeader (permissionsPolicy (headers r))]"
    by (subst fs) (rule oks_findings_of)
  have "ok (findings r ! 0) = httpsEnabled r"
    using len by (simp add: nth_ok oks)
  moreover have "ok (findings r ! 1) = httpRedirectsToHttps r"
    using len by (simp add: nth_ok oks)
  moreover have "map ok (drop 2 (findings r)) = drop 2 (map ok (findings r))"
    by (simp add: drop_map)
  ultimately show ?thesis
    using len keys by (simp add: oks toBoolHeader_iff)
qed

text \<open>On the host whose HTTPS answers 500 with \<open>Strict-Transport-Security\<close> alone:
  only the third finding is \<open>ok\<close>.\<close>

theorem findings_fixed_keys_and_ok_witness:
  "POST example_URL fetch_broken (JsonBody (JString (str ''  example.com/shop?x=1 ''))) =
     (json_response 200 (ScanJson (scan fetch_broken example_target)),
      [(httpsUrl example_target, Follow), (httpUrl example_target, Manual)]) \<and>
   resp_body (json_response 200 (ScanJson (scan fetch_broken example_target))) =
     ScanJson (scan fetch_broken example_target) \<and>
   map key (findings (scan fetch_broken example_target)) =
     [str ''httpsEnabled'', str ''httpRedirectsToHttps'', str ''hsts'', str ''csp'',
      str ''x-frame-options'', str ''x-content-type-options'', str ''referrer-policy'',
      str ''permissions-policy''] \<and>
   map ok (drop 2 (findings (scan fetch_broken example_target))) =
     [True, False, False, False, False, False]"
proof -
  have p: "POST example_URL fetch_broken (JsonBody (JString (str ''  example.com/shop?x=1 ''))) =
     (json_response 200 (ScanJson (scan fetch_broken example_target)),
      [(httpsUrl example_target, Follow), (httpUrl example_target, Manual)])"
    by (rule example_scan_response)
  have b: "resp_body (json_response 200 (ScanJson (scan fetch_broken example_target))) =
     ScanJson (scan fetch_broken example_target)"
    by (rule resp_body_json_response)
  have "map ok (drop 2 (findings (scan fetch_broken example_target))) =
          drop 2 (map ok (findings (scan fetch_broken example_target)))"
    by (simp add: drop_map)
  then have "map ok (drop 2 (findings (scan fetch_broken example_target))) =
     [True, False, False, False, False, False]"
    unfolding broken_oks by simp
  with findings_fixed_keys_and_ok [OF p b] p b show ?thesis by blast
qed

subsection \<open>C4: the normalizer\<close>

text \<open>
  C4. For every input, \<open>normalizeUrl\<close> is the parser applied to the trimmed input, with
  \<open>https://\<close> put in front when the trimmed input has neither \<open>http://\<close> nor \<open>https://\<close>
  as a case-insensitive prefix; an exception of the parser is passed on, and a host
  \<open>h\<close> gives \<open>https://h/\<close> and \<open>http://h/\<close>, whatever path or query the input had.
  The trimmed input is the input without a run of white space at each end, and it
  neither starts nor ends with white space. The two URLs are built on the same host,
  end in a slash, and are equal after their schemes.
\<close>

theorem normalizeUrl_contract:
  "normalizeUrl URL input =
     (case URL (with_scheme (trim input)) of
        Inl e \<Rightarrow> Inl e
      | Inr h \<Rightarrow> Inr \<lparr>httpsUrl = str ''https://'' @ h @ str ''/'',
                      httpUrl = str ''http://'' @ h @ str ''/'', host = h\<rparr>) \<and>
   (\<exists>pre suf. input = pre @ trim input @ suf \<and>
      list_all is_whitespace pre \<and> list_all is_whitespace suf) \<and>
   (trim input \<noteq> [] \<longrightarrow>
      \<not> is_whitespace (hd (trim input)) \<and> \<not> is_whitespace (last (trim input))) \<and>
   (\<forall>t. normalizeUrl URL input = Inr t \<longrightarrow>
      httpsUrl t = str ''https://'' @ host t @ str ''/'' \<and>
      httpUrl t = str ''http://'' @ host t @ str ''/'' \<and>
      take 8 (httpsUrl t) = str ''https://'' \<and> take 7 (httpUrl t) = str ''http://'' \<and>
      drop 8 (httpsUrl t) = drop 7 (httpUrl t) \<and>
      last (httpsUrl t) = of_char CHR ''/'' \<and> last (httpUrl t) = of_char CHR ''/'')"
proof -
  have shape: "httpsUrl t = str ''https://'' @ host t @ str ''/'' \<and>
      httpUrl t = str ''http://'' @ host t @ str ''/'' \<and>
      take 8 (httpsUrl t) = str ''https://'' \<and> take 7 (httpUrl t) = str ''http://'' \<and>
      drop 8 (httpsUrl t) = drop 7 (httpUrl t) \<and>
      last (httpsUrl t) = of_char CHR ''/'' \<and> last (httpUrl t) = of_char CHR ''/''"
    if "normalizeUrl URL input = Inr t" for t
  proof -
    from that obtain h where t: "t = \<lparr>httpsUrl = str ''https://'' @ h @ str ''/'',
        httpUrl = str ''http://'' @ h @ str ''/'', host = h\<rparr>"
      unfolding normalizeUrl_eq by (auto split: sum.splits)
    show ?thesis unfolding t by (simp add: str_def)
  qed
  show ?thesis
    using normalizeUrl_eq [of URL input] trim_decomposition [of input] trim_ends [of input] shape
    by blast
qed

text \<open>At the input \<open>"  example.com/shop?x=1 "\<close>, and with a scheme in capitals.\<close>

theorem normalizeUrl_contract_witness:
  "trim (str ''  example.com/shop?x=1 '') = str ''example.com/shop?x=1'' \<and>
   with_scheme (str ''example.com/shop?x=1'') = str ''https://example.com/shop?x=1'' \<and>
   with_scheme (str ''HTTP://example.com'') = str ''HTTP://example.com'' \<and>
   normalizeUrl example_URL (str ''  example.com/shop?x=1 '') = Inr example_target \<and>
   httpsUrl example_target = str ''https://'' @ host example_target @ str ''/'' \<and>
   drop 8 (httpsUrl example_target) = drop 7 (httpUrl example_target)"
proof -
  have a: "trim (str ''  example.com/shop?x=1 '') = str ''example.com/shop?x=1''"
    by (simp add: trim_def str_def is_whitespace_def)
  have b: "with_scheme (str ''example.com/shop?x=1'') = str ''https://example.com/shop?x=1''"
    by (simp add: with_scheme_def has_prefix_ci_def str_def ascii_lower_def)
  have c: "with_scheme (str ''HTTP://example.com'') = str ''HTTP://example.com''"
    by (simp add: with_scheme_def has_prefix_ci_def str_def ascii_lower_def)
  have d: "example_URL (str ''https://example.com/shop?x=1'') = Inr (str ''example.com'')"
    by (simp add: example_URL_def)
  have e: "str ''https://'' @ str ''example.com'' @ str ''/'' = str ''https://example.com/''"
          "str ''http://'' @ str ''example.com'' @ str ''/'' = str ''http://example.com/''"
    by (simp_all add: str_def)
  note inst = normalizeUrl_contract [of example_URL "str ''  example.com/shop?x=1 ''"]
  from inst have "normalizeUrl example_URL (str ''  example.com/shop?x=1 '') =
     (case example_URL (with_scheme (trim (str ''  example.com/shop?x=1 ''))) of
        Inl e \<Rightarrow> Inl e
      | Inr h \<Rightarrow> Inr \<lparr>httpsUrl = str ''https://'' @ h @ str ''/'',
                      httpUrl = str ''http://'' @ h @ str ''/'', host = h\<rparr>)"
    by (rule conjunct1)
  then have n: "normalizeUrl example_URL (str ''  example.com/shop?x=1 '') = Inr example_target"
    unfolding a b d by (simp add: example_target_def e)
  from inst n have "httpsUrl example_target = str ''https://'' @ host example_target @ str ''/'' \<and>
      drop 8 (httpsUrl example_target) = drop 7 (httpUrl example_target)"
    by blast
  with n a b c show ?thesis by blast
qed

subsection \<open>C5: the HTTPS probe\<close>

text \<open>
  C5. For a request whose URL normalizes to a target, \<open>POST\<close> calls \<open>fetch\<close> on the
  HTTPS URL with redirects followed and answers 200 with the scan result; in it
  \<open>httpsEnabled\<close> is true exactly when that \<open>fetch\<close> gave a response whose status is
  at least 200 and below 400. When the \<open>fetch\<close> throws, \<open>httpsEnabled\<close> is false and the
  answer is still the scan result.
\<close>

theorem httpsEnabled_iff_status:
  assumes "u \<noteq> []" and "normalizeUrl URL u = Inr t"
  shows "POST URL fetch (JsonBody (JString u)) =
           (json_response 200 (ScanJson (scan fetch t)),
            [(httpsUrl t, Follow), (httpUrl t, Manual)]) \<and>
         (httpsEnabled (scan fetch t) \<longleftrightarrow>
            (\<exists>res. fetch (httpsUrl t) Follow = Inr res \<and> 200 \<le> status res \<and> status res < 400)) \<and>
         (\<forall>e. fetch (httpsUrl t) Follow = Inl e \<longrightarrow> \<not> httpsEnabled (scan fetch t))"
proof -
  have "httpsEnabled (scan fetch t) \<longleftrightarrow>
      (\<exists>res. fetch (httpsUrl t) Follow = Inr res \<and> 200 \<le> status res \<and> status res < 400)"
    unfolding scan_httpsEnabled by (cases "fetch (httpsUrl t) Follow") simp_all
  moreover have "\<not> httpsEnabled (scan fetch t)" if "fetch (httpsUrl t) Follow = Inl e" for e
    using that by (simp add: scan_httpsEnabled)
  ultimately show ?thesis
    using POST_scannable [OF assms, of fetch] by blast
qed

text \<open>On the host that answers 200 over HTTPS, and on the host with no HTTPS.\<close>

theorem httpsEnabled_iff_status_witness:
  "str ''  example.com/shop?x=1 '' \<noteq> [] \<and>
   normalizeUrl example_URL (str ''  example.com/shop?x=1 '') = Inr example_target \<and>
   fetch_secure (httpsUrl example_target) Follow = Inr \<lparr>status = 200, res_headers = six_set\<rparr> \<and>
   httpsEnabled (scan fetch_secure example_target) \<and>
   fetch_down (httpsUrl example_target) Follow = Inl (JsError (str ''fetch failed'')) \<and>
   \<not> httpsEnabled (scan fetch_down example_target) \<and>
   POST example_URL fetch_down (JsonBody (JString (str ''  example.com/shop?x=1 ''))) =
     (json_response 200 (ScanJson (scan fetch_down example_target)),
      [(httpsUrl example_target, Follow), (httpUrl example_target, Manual)])"
proof -
  have s: "fetch_secure (httpsUrl example_target) Follow = Inr \<lparr>status = 200, res_headers = six_set\<rparr>"
    by (simp add: fetch_secure_def)
  have st: "200 \<le> status \<lparr>status = 200, res_headers = six_set\<rparr> \<and>
            status \<lparr>status = 200, res_headers = six_set\<rparr> < 400"
    by simp
  have d: "fetch_down (httpsUrl example_target) Follow = Inl (JsError (str ''fetch failed''))"
    by (simp add: fetch_down_def)
  from httpsEnabled_iff_status [OF example_input_not_empty example_normalizes, of fetch_secure] s st
  have a: "httpsEnabled (scan fetch_secure example_target)" by blast
  from httpsEnabled_iff_status [OF example_input_not_empty example_normalizes, of fetch_down] d
  have b: "\<not> httpsEnabled (scan fetch_down example_target) \<and>
     POST example_URL fetch_down (JsonBody (JString (str ''  example.com/shop?x=1 ''))) =
     (json_response 200 (ScanJson (scan fetch_down example_target)),
      [(httpsUrl example_target, Follow), (httpUrl example_target, Manual)])" by blast
  from a b s d example_input_not_empty example_normalizes show ?thesis by blast
qed

subsection \<open>C6: the HTTP probe\<close>

text \<open>
  C6. For a request whose URL normalizes to a target, \<open>POST\<close> calls \<open>fetch\<close> on the
  HTTP URL second, with redirects not followed; in the scan result
  \<open>httpRedirectsToHttps\<close> is true exactly when that \<open>fetch\<close> gave a response whose
  status is 301, 302, 307 or 308 and whose \<open>Location\<close> value has \<open>https://\<close> as its first
  eight code units, capitals counted as small letters. Nothing after these eight code
  units is read. When the \<open>fetch\<close> throws, \<open>httpRedirectsToHttps\<close> is false.
\<close>

theorem redirect_iff_status_and_location:
  assumes "u \<noteq> []" and "normalizeUrl URL u = Inr t"
  shows "POST URL fetch (JsonBody (JString u)) =
           (json_response 200 (ScanJson (scan fetch t)),
            [(httpsUrl t, Follow), (httpUrl t, Manual)]) \<and>
         (httpRedirectsToHttps (scan fetch t) \<longleftrightarrow>
            (\<exists>res loc. fetch (httpUrl t) Manual = Inr res \<and>
               status res \<in> {301, 302, 307, 308} \<and>
               res_headers res (str ''location'') = Some loc \<and>
               map ascii_lower (take 8 loc) = str ''https://'')) \<and>
         (\<forall>e. fetch (httpUrl t) Manual = Inl e \<longrightarrow> \<not> httpRedirectsToHttps (scan fetch t))"
proof -
  have "httpRedirectsToHttps (scan fetch t) \<longleftrightarrow>
      (\<exists>res loc. fetch (httpUrl t) Manual = Inr res \<and>
         status res \<in> {301, 302, 307, 308} \<and>
         res_headers res (str ''location'') = Some loc \<and>
         map ascii_lower (take 8 loc) = str ''https://'')"
    unfolding scan_redirects https_scheme_first_eight
    by (cases "fetch (httpUrl t) Manual") simp_all
  moreover have "\<not> httpRedirectsToHttps (scan fetch t)" if "fetch (httpUrl t) Manual = Inl e" for e
    using that by (simp add: scan_redirects)
  ultimately show ?thesis
    using POST_scannable [OF assms, of fetch] by blast
qed

text \<open>On the host that answers 301 with \<open>Location: HTTPS://example.com/\<close>, and on the host
  whose HTTP port is closed.\<close>

theorem redirect_iff_status_and_location_witness:
  "str ''  example.com/shop?x=1 '' \<noteq> [] \<and>
   normalizeUrl example_URL (str ''  example.com/shop?x=1 '') = Inr example_target \<and>
   status (projr (fetch_secure (httpUrl example_target) Manual)) = 301 \<and>
   res_headers (projr (fetch_secure (httpUrl example_target) Manual)) (str ''location'') =
     Some (str ''HTTPS://example.com/'') \<and>
   map ascii_lower (take 8 (str ''HTTPS://example.com/'')) = str ''https://'' \<and>
   httpRedirectsToHttps (scan fetch_secure example_target) \<and>
   fetch_broken (httpUrl example_target) Manual = Inl (JsError (str ''fetch failed'')) \<and>
   \<not> httpRedirectsToHttps (scan fetch_broken example_target)"
proof -
  define res where "res = \<lparr>status = 301,
     res_headers = (\<lambda>name. if name = str ''location''
                            then Some (str ''HTTPS://example.com/'') else None)\<rparr>"
  have s: "fetch_secure (httpUrl example_target) Manual = Inr res"
    by (simp add: fetch_secure_def res_def)
  have st: "status res = 301" "status res \<in> {301, 302, 307, 308}"
    by (simp_all add: res_def)
  have l: "res_headers res (str ''location'') = Some (str ''HTTPS://example.com/'')"
    by (simp add: res_def)
  have e: "map ascii_lower (take 8 (str ''HTTPS://example.com/'')) = str ''https://''"
    by (simp add: str_def ascii_lower_def)
  have d: "fetch_broken (httpUrl example_target) Manual = Inl (JsError (str ''fetch failed''))"
    by (simp add: fetch_broken_def)
  from redirect_iff_status_and_location [OF example_input_not_empty example_normalizes, of fetch_secure]
    s st l e
  have a: "httpRedirectsToHttps (scan fetch_secure example_target)" by blast
  from redirect_iff_status_and_location [OF example_input_not_empty example_normalizes, of fetch_broken] d
  have b: "\<not> httpRedirectsToHttps (scan fetch_broken example_target)" by blast
  from a b st(1) l e d example_input_not_empty example_normalizes show ?thesis
    unfolding s by simp
qed

subsection \<open>C7: advice\<close>

text \<open>
  C7. Whenever \<open>POST\<close> answers with a scan result, a finding of the result has an
  \<open>advice\<close> exactly when it is not \<open>ok\<close>.
\<close>

theorem advice_iff_not_ok:
  assumes "POST URL fetch req = (response, log)" and "resp_body response = ScanJson r"
  shows "\<forall>f \<in> set (findings r). (advice f \<noteq> None) = (\<not> ok f)"
proof -
  from POST_ScanJson [OF assms] obtain t where r: "r = scan fetch t" by blast
  show ?thesis
    unfolding r by (subst scan_findings) (blast dest: advice_findings_of)
qed

text \<open>On the same host: the third finding is \<open>ok\<close> and has no advice, the first is not
  and has one.\<close>

theorem advice_iff_not_ok_witness:
  "POST example_URL fetch_broken (JsonBody (JString (str ''  example.com/shop?x=1 ''))) =
     (json_response 200 (ScanJson (scan fetch_broken example_target)),
      [(httpsUrl example_target, Follow), (httpUrl example_target, Manual)]) \<and>
   resp_body (json_response 200 (ScanJson (scan fetch_broken example_target))) =
     ScanJson (scan fetch_broken example_target) \<and>
   ok (findings (scan fetch_broken example_target) ! 2) \<and>
   advice (findings (scan fetch_broken example_target) ! 2) = None \<and>
   \<not> ok (findings (scan fetch_broken example_target) ! 0) \<and>
   advice (findings (scan fetch_broken example_target) ! 0) \<noteq> None"
proof -
  let ?fs = "findings (scan fetch_broken example_target)"
  have p: "POST example_URL fetch_broken (JsonBody (JString (str ''  example.com/shop?x=1 ''))) =
     (json_response 200 (ScanJson (scan fetch_broken example_target)),
      [(httpsUrl example_target, Follow), (httpUrl example_target, Manual)])"
    by (rule example_scan_response)
  have b: "resp_body (json_response 200 (ScanJson (scan fetch_broken example_target))) =
     ScanJson (scan fetch_broken example_target)"
    by (rule resp_body_json_response)
  have len: "length ?fs = 8"
    by (subst scan_findings) (rule length_findings_of)
  then have m: "?fs ! 2 \<in> set ?fs" "?fs ! 0 \<in> set ?fs" by simp_all
  have o: "ok (?fs ! 2)" "\<not> ok (?fs ! 0)"
    using len by (simp_all add: nth_ok broken_oks)
  from advice_iff_not_ok [OF p b] m o
  have "advice (?fs ! 2) = None" "advice (?fs ! 0) \<noteq> None" by blast+
  with p b o show ?thesis by blast
qed

subsection \<open>C8: the priorities\<close>

text \<open>
  C8. Whenever \<open>POST\<close> answers with a scan result, its priorities are the first three,
  in the order of the findings, of the findings that are not \<open>ok\<close> and have an advice,
  which are all the findings that are not \<open>ok\<close>. So they are at most three, each carries
  the key and the advice, defined and not empty, of a finding that is not \<open>ok\<close>, and
  their keys are a subsequence of the findings' keys. When no finding is \<open>ok\<close>, the
  keys are \<open>httpsEnabled\<close>, \<open>httpRedirectsToHttps\<close>, \<open>hsts\<close>.
\<close>

theorem priorities_first_three_failing:
  assumes "POST URL fetch req = (response, log)" and "resp_body response = ScanJson r"
  shows "length (priorities r) \<le> 3 \<and>
         priorities r =
           take 3 (map (\<lambda>f. (key f, advice f))
             (filter (\<lambda>f. \<not> ok f \<and> advice f \<noteq> None) (findings r))) \<and>
         filter (\<lambda>f. \<not> ok f \<and> advice f \<noteq> None) (findings r) =
           filter (\<lambda>f. \<not> ok f) (findings r) \<and>
         (\<forall>p \<in> set (priorities r). \<exists>f \<in> set (findings r).
            \<not> ok f \<and> fst p = key f \<and> snd p = advice f \<and> snd p \<noteq> None \<and> snd p \<noteq> Some []) \<and>
         subseq (map fst (priorities r)) (map key (findings r)) \<and>
         ((\<forall>f \<in> set (findings r). \<not> ok f) \<longrightarrow>
            map fst (priorities r) =
              [str ''httpsEnabled'', str ''httpRedirectsToHttps'', str ''hsts''])"
proof -
  from POST_ScanJson [OF assms] obtain t where r: "r = scan fetch t" by blast
  obtain a b h1 h2 h3 h4 h5 h6 where fs: "findings r = findings_of a b h1 h2 h3 h4 h5 h6"
    unfolding r using scan_findings by blast
  let ?Q = "\<lambda>f. \<not> ok f \<and> advice f \<noteq> None"
  let ?g = "\<lambda>f. (key f, advice f)"
  have pr: "priorities r = take 3 (map ?g (filter ?Q (findings r)))"
    unfolding r scan_priorities
    unfolding r [symmetric] fs by (rule priorities_of_findings_of)
  have flt: "filter ?Q (findings r) = filter (\<lambda>f. \<not> ok f) (findings r)"
    unfolding fs by (rule failing_findings_of)
  have len: "length (priorities r) \<le> 3"
    unfolding pr by simp
  have mem: "\<exists>f \<in> set (findings r).
      \<not> ok f \<and> fst p = key f \<and> snd p = advice f \<and> snd p \<noteq> None \<and> snd p \<noteq> Some []"
    if "p \<in> set (priorities r)" for p
  proof -
    from that have "p \<in> set (map ?g (filter ?Q (findings r)))"
      unfolding pr by (rule in_set_takeD)
    then obtain f where f: "f \<in> set (findings r)" "\<not> ok f" "p = ?g f" by auto
    from f(1,2) have "advice f \<noteq> None \<and> advice f \<noteq> Some []"
      unfolding fs by (rule advice_not_empty_findings_of)
    with f show ?thesis by auto
  qed
  have "map fst (priorities r) = take 3 (map key (filter ?Q (findings r)))"
    unfolding pr by (simp add: take_map comp_def)
  then have keys: "map fst (priorities r) = take 3 (map key (filter (\<lambda>f. \<not> ok f) (findings r)))"
    unfolding flt .
  have sub: "subseq (map fst (priorities r)) (map key (findings r))"
    unfolding keys by (rule subseq_take_map_filter)
  have all: "map fst (priorities r) =
      [str ''httpsEnabled'', str ''httpRedirectsToHttps'', str ''hsts'']"
    if "\<forall>f \<in> set (findings r). \<not> ok f"
  proof -
    from that have "filter (\<lambda>f. \<not> ok f) (findings r) = findings r" by simp
    then have "map fst (priorities r) = take 3 (map key (findings r))"
      unfolding keys by simp
    then show ?thesis unfolding fs keys_findings_of by simp
  qed
  from len pr flt mem sub all show ?thesis by blast
qed

text \<open>On the host with no HTTPS and a plain page over HTTP, no finding is \<open>ok\<close>.\<close>

theorem priorities_first_three_failing_witness:
  "POST example_URL fetch_down (JsonBody (JString (str ''  example.com/shop?x=1 ''))) =
     (json_response 200 (ScanJson (scan fetch_down example_target)),
      [(httpsUrl example_target, Follow), (httpUrl example_target, Manual)]) \<and>
   resp_body (json_response 200 (ScanJson (scan fetch_down example_target))) =
     ScanJson (scan fetch_down example_target) \<and>
   map ok (findings (scan fetch_down example_target)) =
     [False, False, False, False, False, False, False, False] \<and>
   map fst (priorities (scan fetch_down example_target)) =
     [str ''httpsEnabled'', str ''httpRedirectsToHttps'', str ''hsts''] \<and>
   length (priorities (scan fetch_down example_target)) \<le> 3"
proof -
  let ?fs = "findings (scan fetch_down example_target)"
  have p: "POST example_URL fetch_down (JsonBody (JString (str ''  example.com/shop?x=1 ''))) =
     (json_response 200 (ScanJson (scan fetch_down example_target)),
      [(httpsUrl example_target, Follow), (httpUrl example_target, Manual)])"
    by (rule example_scan_response)
  have b: "resp_body (json_response 200 (ScanJson (scan fetch_down example_target))) =
     ScanJson (scan fetch_down example_target)"
    by (rule resp_body_json_response)
  have len: "length ?fs = 8"
    by (subst scan_findings) (rule length_findings_of)
  have "map ok ?fs = replicate (length ?fs) False"
    unfolding len down_oks by (simp add: numeral_eq_Suc)
  then have "\<forall>f \<in> set ?fs. \<not> ok f" by (rule all_failing_by_map)
  with priorities_first_three_failing [OF p b] p b down_oks show ?thesis by blast
qed

subsection \<open>C9: an input that is not a URL\<close>

text \<open>
  C9. \<open>POST\<close> answers the empty string with status 400 and the message that the URL is
  missing, and a string that the parser rejects, after trimming and prefixing, with
  status 400 and the message of the parser's exception. In general, a request that
  does not carry a non-empty string that normalizes to a target is answered with
  status 400 and an error message, and an answer that is an error message has status
  400. In all these cases \<open>fetch\<close> is not called.
\<close>

theorem invalid_input_is_client_error:
  "POST URL fetch (JsonBody (JString [])) =
     (json_response 400 (ErrorJson missing_url_message), []) \<and>
   (\<forall>u e. u \<noteq> [] \<longrightarrow> URL (with_scheme (trim u)) = Inl e \<longrightarrow>
      POST URL fetch (JsonBody (JString u)) =
        (json_response 400 (ErrorJson (error_message e)), [])) \<and>
   (\<forall>req. \<not> (\<exists>u t. req = JsonBody (JString u) \<and> u \<noteq> [] \<and> normalizeUrl URL u = Inr t) \<longrightarrow>
      (\<exists>m. POST URL fetch req = (json_response 400 (ErrorJson m), []))) \<and>
   (\<forall>req response log m. POST URL fetch req = (response, log) \<longrightarrow>
      resp_body response = ErrorJson m \<longrightarrow> resp_status response = 400 \<and> log = [])"
proof -
  have parse: "POST URL fetch (JsonBody (JString u)) =
        (json_response 400 (ErrorJson (error_message e)), [])"
    if "u \<noteq> []" and "URL (with_scheme (trim u)) = Inl e" for u e
  proof -
    from that(2) have "normalizeUrl URL u = Inl e" by (simp add: normalizeUrl_eq)
    with that(1) show ?thesis by (rule POST_invalid)
  qed
  have general: "\<exists>m. POST URL fetch req = (json_response 400 (ErrorJson m), [])"
    if "\<not> (\<exists>u t. req = JsonBody (JString u) \<and> u \<noteq> [] \<and> normalizeUrl URL u = Inr t)" for req
    using POST_cases [of URL fetch req] that by blast
  have err: "resp_status response = 400 \<and> log = []"
    if "POST URL fetch req = (response, log)" and "resp_body response = ErrorJson m"
    for req response log m
    using POST_cases [of URL fetch req] that by (auto simp: json_response_def)
  from POST_empty [of URL fetch] parse general err show ?thesis by blast
qed

text \<open>The input \<open>"http://"\<close>, which the parser rejects with the message \<open>Invalid URL\<close>.\<close>

theorem invalid_input_is_client_error_witness:
  "str ''http://'' \<noteq> [] \<and>
   example_URL (with_scheme (trim (str ''http://''))) = Inl (JsError (str ''Invalid URL'')) \<and>
   POST example_URL fetch_secure (JsonBody (JString (str ''http://''))) =
     (json_response 400 (ErrorJson (str ''Invalid URL'')), []) \<and>
   resp_status (json_response 400 (ErrorJson (str ''Invalid URL''))) = 400"
proof -
  have n: "str ''http://'' \<noteq> []" by (simp add: str_def)
  have t: "trim (str ''http://'') = str ''http://''"
    by (simp add: trim_def str_def is_whitespace_def)
  have w: "with_scheme (str ''http://'') = str ''http://''"
    by (simp add: with_scheme_def has_prefix_ci_def str_def ascii_lower_def)
  have e: "example_URL (with_scheme (trim (str ''http://''))) = Inl (JsError (str ''Invalid URL''))"
    unfolding t w by (simp add: example_URL_def str_def)
  have m: "error_message (JsError (str ''Invalid URL'')) = str ''Invalid URL''"
    by (simp add: error_message_def)
  from invalid_input_is_client_error [of example_URL fetch_secure] n e
  have "POST example_URL fetch_secure (JsonBody (JString (str ''http://''))) =
     (json_response 400 (ErrorJson (error_message (JsError (str ''Invalid URL'')))), [])"
    by blast
  with n e show ?thesis unfolding m by (simp add: json_response_def)
qed

subsection \<open>C10: headers of a response with a bad status\<close>

text \<open>
  C10. For a request whose URL normalizes to a target, when the HTTPS \<open>fetch\<close> gives a
  response, the six header values of the scan result are the lookups in that
  response's headers and the six header findings are \<open>ok\<close> by them, whatever the
  status. When the status is below 200 or at least 400, \<open>httpsEnabled\<close> and the first
  finding are false all the same, so a header finding can be \<open>ok\<close> beside them.
\<close>

theorem headers_kept_whatever_status:
  assumes "u \<noteq> []" and "normalizeUrl URL u = Inr t"
      and "fetch (httpsUrl t) Follow = Inr res"
  shows "POST URL fetch (JsonBody (JString u)) =
           (json_response 200 (ScanJson (scan fetch t)),
            [(httpsUrl t, Follow), (httpUrl t, Manual)]) \<and>
         headers (scan fetch t) = lookup_six (res_headers res) \<and>
         map ok (drop 2 (findings (scan fetch t))) =
           map (\<lambda>name. toBoolHeader (res_headers res name))
             [str ''strict-transport-security'', str ''content-security-policy'',
              str ''x-frame-options'', str ''x-content-type-options'', str ''referrer-policy'',
              str ''permissions-policy''] \<and>
         (\<not> (200 \<le> status res \<and> status res < 400) \<longrightarrow>
            \<not> httpsEnabled (scan fetch t) \<and> \<not> ok (findings (scan fetch t) ! 0))"
proof -
  from assms(3) have h: "headers (scan fetch t) = lookup_six (res_headers res)"
    by (simp add: scan_headers)
  have o: "map ok (drop 2 (findings (scan fetch t))) =
           map (\<lambda>name. toBoolHeader (res_headers res name))
             [str ''strict-transport-security'', str ''content-security-policy'',
              str ''x-frame-options'', str ''x-content-type-options'', str ''referrer-policy'',
              str ''permissions-policy'']"
    unfolding scan_header_oks h by (rule lookup_six_oks)
  have "\<not> httpsEnabled (scan fetch t) \<and> \<not> ok (findings (scan fetch t) ! 0)"
    if "\<not> (200 \<le> status res \<and> status res < 400)"
    using that assms(3) by (simp add: scan_first_ok scan_httpsEnabled)
  with POST_scannable [OF assms(1,2), of fetch] h o show ?thesis by blast
qed

text \<open>On the host whose HTTPS answers 500 with \<open>Strict-Transport-Security\<close>: the finding
  \<open>hsts\<close> is \<open>ok\<close>, the finding \<open>httpsEnabled\<close> is not.\<close>

theorem headers_kept_whatever_status_witness:
  "str ''  example.com/shop?x=1 '' \<noteq> [] \<and>
   normalizeUrl example_URL (str ''  example.com/shop?x=1 '') = Inr example_target \<and>
   status (projr (fetch_broken (httpsUrl example_target) Follow)) = 500 \<and>
   hsts (headers (scan fetch_broken example_target)) = Some (str ''max-age=600'') \<and>
   map ok (drop 2 (findings (scan fetch_broken example_target))) =
     [True, False, False, False, False, False] \<and>
   \<not> httpsEnabled (scan fetch_broken example_target) \<and>
   \<not> ok (findings (scan fetch_broken example_target) ! 0)"
proof -
  define res where "res = \<lparr>status = 500,
     res_headers = (\<lambda>name. if name = str ''strict-transport-security''
                            then Some (str ''max-age=600'') else None)\<rparr>"
  have f: "fetch_broken (httpsUrl example_target) Follow = Inr res"
    by (simp add: fetch_broken_def res_def)
  have st: "status res = 500" "\<not> (200 \<le> status res \<and> status res < 400)"
    by (simp_all add: res_def)
  have hs: "hsts (lookup_six (res_headers res)) = Some (str ''max-age=600'')"
    by (simp add: lookup_six_def res_def)
  have oks: "map (\<lambda>name. toBoolHeader (res_headers res name))
             [str ''strict-transport-security'', str ''content-security-policy'',
              str ''x-frame-options'', str ''x-content-type-options'', str ''referrer-policy'',
              str ''permissions-policy''] = [True, False, False, False, False, False]"
    by (simp add: res_def toBoolHeader_def str_def)
  from headers_kept_whatever_status [where fetch = fetch_broken, OF example_input_not_empty example_normalizes f] st(2)
  have "headers (scan fetch_broken example_target) = lookup_six (res_headers res) \<and>
        map ok (drop 2 (findings (scan fetch_broken example_target))) =
           map (\<lambda>name. toBoolHeader (res_headers res name))
             [str ''strict-transport-security'', str ''content-security-policy'',
              str ''x-frame-options'', str ''x-content-type-options'', str ''referrer-policy'',
              str ''permissions-policy''] \<and>
        \<not> httpsEnabled (scan fetch_broken example_target) \<and>
        \<not> ok (findings (scan fetch_broken example_target) ! 0)"
    by blast
  with hs oks st(1) example_input_not_empty example_normalizes show ?thesis
    unfolding f by simp
qed

end
